theory Spec2Isabelle
  imports Complex_Main
begin

section \<open>OCR confidence scoring (app/services/ocr_service.py, app/schemas/ocr.py)\<close>

text \<open>
  Python floats are modelled as exact reals: the arithmetic of the scorer is the
  arithmetic of the source with the rounding error of binary floating point left out.
  Exceptions are values: every \<^verbatim>\<open>raise\<close> of the source is an \<open>Inl\<close> of the model, and
  the constructor records the class of the exception, on which the \<^verbatim>\<open>except\<close> clauses
  and \<^verbatim>\<open>isinstance\<close> tests of the source dispatch. \<open>OtherError\<close> stands for every
  exception class the source does not name (TypeError, AttributeError, a framework's
  validation error, ...), with the name of the class and the message.
\<close>

datatype exn =
    CustomException string string
  | ValueError string
  | KeyError string
  | RequestException string
  | OtherError string string

text \<open>\<^verbatim>\<open>str(e)\<close>; a CustomException carries its message and its code.\<close>

fun exn_str :: "exn \<Rightarrow> string" where
  "exn_str (CustomException message code) = message"
| "exn_str (ValueError m) = m"
| "exn_str (KeyError m) = m"
| "exn_str (RequestException m) = m"
| "exn_str (OtherError name m) = m"

text \<open>\<^verbatim>\<open>type(exc).__name__\<close>\<close>

fun exn_type_name :: "exn \<Rightarrow> string" where
  "exn_type_name (CustomException message code) = ''CustomException''"
| "exn_type_name (ValueError m) = ''ValueError''"
| "exn_type_name (KeyError m) = ''KeyError''"
| "exn_type_name (RequestException m) = ''RequestException''"
| "exn_type_name (OtherError name m) = name"

fun is_CustomException :: "exn \<Rightarrow> bool" where
  "is_CustomException (CustomException message code) = True"
| "is_CustomException e = False"

text \<open>
  The dictionary returned by the OCR engine: a column of numbers or a column of words
  under each key, in insertion order.
\<close>

datatype column = Numbers "real list" | Words "string list"

type_synonym ocr_data = "(string \<times> column) list"

text \<open>\<^verbatim>\<open>str.split()\<close> without arguments: maximal runs of non-whitespace characters.\<close>

definition is_space :: "char \<Rightarrow> bool" where
  "is_space c \<longleftrightarrow> c \<in> set [CHR '' '', CHR 0x09, CHR 0x0A, CHR 0x0B, CHR 0x0C, CHR 0x0D,
                               CHR 0x1C, CHR 0x1D, CHR 0x1E, CHR 0x1F]"

fun split_acc :: "string \<Rightarrow> string \<Rightarrow> string list" where
  "split_acc [] cur = (if cur = [] then [] else [rev cur])"
| "split_acc (c # cs) cur =
     (if is_space c then (if cur = [] then split_acc cs [] else rev cur # split_acc cs [])
      else split_acc cs (c # cur))"

definition split :: "string \<Rightarrow> string list" where
  "split s = split_acc s []"

definition np_mean :: "real list \<Rightarrow> real" where
  "np_mean xs = sum_list xs / real (length xs)"

text \<open>\<^verbatim>\<open>np.std\<close>: the population standard deviation.\<close>

definition np_std :: "real list \<Rightarrow> real" where
  "np_std xs = sqrt (np_mean (map (\<lambda>x. (x - np_mean xs)\<^sup>2) xs))"

definition min_text_length :: nat where
  "min_text_length = 10"

text \<open>Lines 242-247 and 249-256 of \<^verbatim>\<open>calculate_confidence_score\<close>: the two quality factors.\<close>

definition text_length_factor :: "string \<Rightarrow> real" where
  "text_length_factor extracted_text =
     (if length (split extracted_text) \<ge> min_text_length then 1.0 else 0.8)"

definition consistency_factor :: "real list \<Rightarrow> real" where
  "consistency_factor word_confidences =
     (let confidence_std = np_std word_confidences in
      if confidence_std < 10 then 1.1
      else if confidence_std < 20 then 1.0
      else 0.9)"

text \<open>
  \<^verbatim>\<open>calculate_confidence_score(extracted_text, ocr_data)\<close>. A missing \<^verbatim>\<open>'conf'\<close> key raises
  KeyError inside the \<^verbatim>\<open>try\<close> and leaves as the CustomException of the \<^verbatim>\<open>except\<close>
  clause; so does a column of words, where the arithmetic fails (the text numpy gives
  that failure is not modelled). The function clamps and does not round.
\<close>

definition calculate_confidence_score :: "string \<Rightarrow> ocr_data \<Rightarrow> exn + real" where
  "calculate_confidence_score extracted_text ocr_data =
     (if extracted_text = [] \<or> ocr_data = [] then Inr 0.0
      else case map_of ocr_data ''conf'' of
        None \<Rightarrow> Inl (CustomException
                  (''Confidence score calculation failed: '' @ [CHR 0x27] @ ''conf'' @ [CHR 0x27])
                  ''PROCESSING_ERROR'')
      | Some (Words ws) \<Rightarrow> Inl (CustomException
                  ''Confidence score calculation failed: '' ''PROCESSING_ERROR'')
      | Some (Numbers conf) \<Rightarrow>
          (let word_confidences = filter (\<lambda>c. c \<noteq> - 1) conf in
           if length word_confidences = 0 then Inr 0.0
           else
             let base_score = np_mean word_confidences / 100.0;
                 quality_factors =
                   [text_length_factor extracted_text, consistency_factor word_confidences];
                 final_score = base_score * np_mean quality_factors
             in Inr (max 0.0 (min 1.0 final_score))))"

text \<open>
  \<^verbatim>\<open>round(value, 4)\<close>: the nearest multiple of \<open>1/10000\<close>, a tie going to the even
  multiple.
\<close>

definition round4 :: "real \<Rightarrow> real" where
  "round4 v =
     (let y = v * 10000; f = \<lfloor>y\<rfloor>; d = y - of_int f in
      of_int (if d < 1/2 then f else if d > 1/2 then f + 1
              else if even f then f else f + 1) / 10000)"

definition MIN_CONFIDENCE_SCORE :: real where
  "MIN_CONFIDENCE_SCORE = 0.0"

definition MAX_CONFIDENCE_SCORE :: real where
  "MAX_CONFIDENCE_SCORE = 1.0"

text \<open>\<^verbatim>\<open>OCRBase.validate_confidence_score\<close>, the validator of the OCR record's score field.\<close>

definition validate_confidence_score :: "real \<Rightarrow> exn + real" where
  "validate_confidence_score v =
     (if v < MIN_CONFIDENCE_SCORE \<or> v > MAX_CONFIDENCE_SCORE
      then Inl (ValueError ''Confidence score must be between 0.0 and 1.0'')
      else Inr (round4 v))"



section \<open>Documents and the OCR pipeline (ocr_service.py, tasks/ocr_tasks.py)\<close>

text \<open>
  JSON values and dictionaries in insertion order. \<open>dict_set\<close> is the assignment
  \<^verbatim>\<open>d[k] = v\<close>, and \<^verbatim>\<open>{**d, k: v}\<close> on a copy.
\<close>

datatype json =
    JNull
  | JBool bool
  | JInt int
  | JNum real
  | JStr string
  | JList "json list"
  | JObj "(string \<times> json) list"

type_synonym dict = "(string \<times> json) list"

fun dict_set :: "string \<Rightarrow> json \<Rightarrow> dict \<Rightarrow> dict" where
  "dict_set k v [] = [(k, v)]"
| "dict_set k v ((k', v') # d) = (if k = k' then (k, v) # d else (k', v') # dict_set k v d)"

text \<open>\<^verbatim>\<open>(metadata or {})\<close>\<close>

definition or_empty :: "dict option \<Rightarrow> dict" where
  "or_empty m = (case m of None \<Rightarrow> [] | Some d \<Rightarrow> d)"

type_synonym uuid = string

text \<open>The Document row (app/models/document.py); timestamps of the row are left out.\<close>

record document =
  doc_id :: uuid
  application_id :: uuid
  doc_type :: string
  storage_path :: string
  classification :: "string option"
  status :: string
  confidence_score :: "real option"
  metadata :: "dict option"

text \<open>The OCR record of app/schemas/ocr.py (OCRCreate, OCRInDB).\<close>

record ocr_record =
  ocr_document_id :: uuid
  ocr_extracted_text :: string
  ocr_confidence_score :: real
  ocr_status :: string
  ocr_metadata :: dict

text \<open>
  The database is one store of committed rows: an object loaded from it is written back
  by \<^verbatim>\<open>commit\<close>, and \<^verbatim>\<open>rollback\<close> keeps the store as it was; queries and commits
  themselves do not fail. \<open>persisted\<close> is the history
  of the document statuses committed, the newest last: what a reader of the table can
  observe over time.
\<close>

record database =
  documents :: "uuid \<rightharpoonup> document"
  ocr_results :: "ocr_record list"
  persisted :: "(uuid \<times> string) list"

definition commit :: "database \<Rightarrow> uuid \<Rightarrow> document \<Rightarrow> database" where
  "commit db document_id d = db\<lparr>documents := (documents db)(document_id \<mapsto> d),
                      persisted := persisted db @ [(document_id, status d)]\<rparr>"

text \<open>\<^verbatim>\<open>os.path.splitext\<close> (posixpath) and \<^verbatim>\<open>str.lower\<close> on ASCII.\<close>

fun rfind_from :: "char \<Rightarrow> string \<Rightarrow> int \<Rightarrow> int \<Rightarrow> int" where
  "rfind_from c [] i best = best"
| "rfind_from c (x # xs) i best = rfind_from c xs (i + 1) (if x = c then i else best)"

definition rfind :: "char \<Rightarrow> string \<Rightarrow> int" where
  "rfind c p = rfind_from c p 0 (- 1)"

definition splitext :: "string \<Rightarrow> string \<times> string" where
  "splitext p =
     (let sepIndex = rfind CHR ''/'' p; dotIndex = rfind CHR ''.'' p in
      if dotIndex > sepIndex \<and>
         list_ex (\<lambda>c. c \<noteq> CHR ''.'')
           (take (nat (dotIndex - (sepIndex + 1))) (drop (nat (sepIndex + 1)) p))
      then (take (nat dotIndex) p, drop (nat dotIndex) p)
      else (p, []))"

definition lower_char :: "char \<Rightarrow> char" where
  "lower_char c =
     (case map_of (zip ''ABCDEFGHIJKLMNOPQRSTUVWXYZ'' ''abcdefghijklmnopqrstuvwxyz'') c of
        None \<Rightarrow> c
      | Some l \<Rightarrow> l)"

definition lower :: "string \<Rightarrow> string" where
  "lower s = map lower_char s"

text \<open>\<^verbatim>\<open>' '.join(words)\<close>\<close>

fun join :: "string list \<Rightarrow> string" where
  "join [] = []"
| "join [w] = w"
| "join (w # ws) = w @ '' '' @ join ws"

definition SUPPORTED_FORMATS :: "string list" where
  "SUPPORTED_FORMATS = [''.pdf'', ''.png'', ''.jpg'', ''.jpeg'', ''.tiff'']"

definition AUTO_APPROVE_THRESHOLD :: real where
  "AUTO_APPROVE_THRESHOLD = 0.95"

definition MANUAL_REVIEW_THRESHOLD :: real where
  "MANUAL_REVIEW_THRESHOLD = 0.70"

definition OCR_ENGINE :: string where
  "OCR_ENGINE = ''pytesseract''"

text \<open>
  What the collaborators of one run answer: the document validator, the construction
  of the OCR processor, the image library, the OCR engine, the construction of the OCR records by the schema framework (beyond
  the score validator, which is modelled), the two uploads and the clock. A run is
  defined for every answer, a raised exception included.
\<close>

record image =
  width :: nat
  height :: nat
  format :: string

record ocr_env =
  validate_document_data_raises :: "exn option"
  processor_raises :: "exn option"
  image_result :: "exn + image"
  image_to_data_result :: "exn + ocr_data"
  ocr_create_raises :: "exn option"
  ocr_in_db_raises :: "exn option"
  service_upload_result :: "exn + string"
  task_upload_result :: "exn + string"
  utcnow :: string

text \<open>
  Lines 171-177 of \<^verbatim>\<open>process_document\<close>: the status of a score. (The source's local
  variables \<^verbatim>\<open>confidence_score\<close> and \<^verbatim>\<open>status\<close> are written \<open>score\<close> and \<open>st\<close>, the
  names being those of the row's fields.)
\<close>

definition process_document_status :: "real \<Rightarrow> string" where
  "process_document_status score =
     (if score \<ge> AUTO_APPROVE_THRESHOLD then ''processed''
      else if score \<ge> MANUAL_REVIEW_THRESHOLD then ''needs_review''
      else ''failed'')"

text \<open>Lines 134-146: the engine's answer and the text joined from its words.\<close>

definition ocr_extract :: "ocr_env \<Rightarrow> exn + (ocr_data \<times> string list \<times> string)" where
  "ocr_extract env =
     (case image_to_data_result env of
        Inl e \<Rightarrow> Inl (CustomException (''OCR extraction failed: '' @ exn_str e) ''OCR_ERROR'')
      | Inr ocr_data \<Rightarrow>
          (case map_of ocr_data ''text'' of
             Some (Words ws) \<Rightarrow> Inr (ocr_data, ws, join ws)
           | Some (Numbers ns) \<Rightarrow>
               Inl (CustomException (''OCR extraction failed: '' @
                      ''sequence item 0: expected str instance, float found'') ''OCR_ERROR'')
           | None \<Rightarrow>
               Inl (CustomException (''OCR extraction failed: '' @
                      [CHR 0x27] @ ''text'' @ [CHR 0x27]) ''OCR_ERROR'')))"

text \<open>
  \<^verbatim>\<open>OCRCreate(...)\<close> and \<^verbatim>\<open>OCRInDB(**ocr_create.dict())\<close>: the construction runs the field
  validators, of which \<^verbatim>\<open>validate_confidence_score\<close> sets the stored score.
\<close>

definition OCRCreate :: "ocr_env \<Rightarrow> uuid \<Rightarrow> string \<Rightarrow> real \<Rightarrow> dict \<Rightarrow> exn + ocr_record" where
  "OCRCreate env document_id extracted_text score md =
     (case ocr_create_raises env of
        Some e \<Rightarrow> Inl e
      | None \<Rightarrow>
          (case validate_confidence_score score of
             Inl e \<Rightarrow> Inl (OtherError ''ValidationError'' (exn_str e))
           | Inr v \<Rightarrow> Inr \<lparr>ocr_document_id = document_id, ocr_extracted_text = extracted_text,
                           ocr_confidence_score = v, ocr_status = ''pending'',
                           ocr_metadata = md\<rparr>))"

definition OCRInDB :: "ocr_env \<Rightarrow> ocr_record \<Rightarrow> exn + ocr_record" where
  "OCRInDB env r =
     (case ocr_in_db_raises env of
        Some e \<Rightarrow> Inl e
      | None \<Rightarrow>
          (case validate_confidence_score (ocr_confidence_score r) of
             Inl e \<Rightarrow> Inl (OtherError ''ValidationError'' (exn_str e))
           | Inr v \<Rightarrow> Inr (r\<lparr>ocr_confidence_score := v\<rparr>)))"

fun column_json :: "column \<Rightarrow> json" where
  "column_json (Numbers ns) = JList (map JNum ns)"
| "column_json (Words ws) = JList (map JStr ws)"

text \<open>
  Lines 148-199 of \<^verbatim>\<open>process_document\<close>, after the score is known: the OCR record, its
  status, the upload, the update of the document and the commit.
\<close>

definition process_document_record ::
  "ocr_env \<Rightarrow> database \<Rightarrow> uuid \<Rightarrow> document \<Rightarrow> image \<Rightarrow> ocr_data \<Rightarrow> string list \<Rightarrow> string \<Rightarrow> real
     \<Rightarrow> exn + (ocr_record \<times> database)" where
  "process_document_record env db document_id document img ocr_data ws extracted_text score =
     (case map_of ocr_data ''conf'' of
        None \<Rightarrow> Inl (KeyError ([CHR 0x27] @ ''conf'' @ [CHR 0x27]))
      | Some conf \<Rightarrow>
          (case OCRCreate env document_id extracted_text score
                  [(''word_confidences'', column_json conf),
                   (''word_count'', JInt (int (length ws))),
                   (''processing_details'', JObj
                      [(''engine'', JStr OCR_ENGINE),
                       (''preprocessing_applied'', JBool True),
                       (''image_quality'', JObj
                          [(''width'', JInt (int (width img))),
                           (''height'', JInt (int (height img))),
                           (''format'', JStr (format img))])])] of
             Inl e \<Rightarrow> Inl e
           | Inr created \<Rightarrow>
               (let ocr_create = created\<lparr>ocr_status := process_document_status score\<rparr> in
                case service_upload_result env of
                  Inl e \<Rightarrow> Inl e
                | Inr s3_path \<Rightarrow>
                    (case metadata document of
                       None \<Rightarrow> Inl (OtherError ''TypeError''
                                 ([CHR 0x27] @ ''NoneType'' @ [CHR 0x27] @ '' object is not a mapping''))
                     | Some md \<Rightarrow>
                         (let document' = document
                                \<lparr>status := ocr_status ocr_create,
                                 confidence_score := Some score,
                                 storage_path := s3_path,
                                 metadata := Some (dict_set ''ocr_processing''
                                   (JObj [(''timestamp'', JStr (utcnow env)),
                                          (''confidence_score'', JNum score),
                                          (''status'', JStr (ocr_status ocr_create))]) md)\<rparr>
                          in case OCRInDB env ocr_create of
                               Inl e \<Rightarrow> Inl e
                             | Inr stored \<Rightarrow>
                                 Inr (stored,
                                      commit (db\<lparr>ocr_results := ocr_results db @ [stored]\<rparr>)
                                        document_id document'))))))"

text \<open>The \<^verbatim>\<open>try\<close> block of \<^verbatim>\<open>process_document\<close>.\<close>

definition process_document_try ::
  "ocr_env \<Rightarrow> database \<Rightarrow> uuid \<Rightarrow> exn + (ocr_record \<times> database)" where
  "process_document_try env db document_id =
     (case documents db document_id of
        None \<Rightarrow> Inl (CustomException (''Document not found: '' @ document_id) ''NOT_FOUND'')
      | Some document \<Rightarrow>
          (case validate_document_data_raises env of
             Some e \<Rightarrow> Inl e
           | None \<Rightarrow>
               (let file_ext = lower (snd (splitext (storage_path document))) in
                if file_ext \<notin> set SUPPORTED_FORMATS
                then Inl (CustomException (''Unsupported file format: '' @ file_ext)
                            ''VALIDATION_ERROR'')
                else
                  (case processor_raises env of
                     Some e \<Rightarrow> Inl e
                   | None \<Rightarrow>
                       (case image_result env of
                          Inl e \<Rightarrow>
                            Inl (CustomException (''Image processing failed: '' @ exn_str e)
                                   ''PROCESSING_ERROR'')
                        | Inr img \<Rightarrow>
                            (case ocr_extract env of
                               Inl e \<Rightarrow> Inl e
                             | Inr (ocr_data, ws, extracted_text) \<Rightarrow>
                                 (case calculate_confidence_score extracted_text ocr_data of
                                    Inl e \<Rightarrow> Inl e
                                  | Inr score \<Rightarrow>
                                      process_document_record env db document_id document img
                                        ocr_data ws extracted_text score)))))))"

text \<open>
  \<^verbatim>\<open>process_document\<close>: a CustomException leaves as it is, any other exception as a
  CustomException with code PROCESSING_ERROR, both after a rollback.
\<close>

definition process_document ::
  "ocr_env \<Rightarrow> database \<Rightarrow> uuid \<Rightarrow> (exn + ocr_record) \<times> database" where
  "process_document env db document_id =
     (case process_document_try env db document_id of
        Inr (r, db') \<Rightarrow> (Inr r, db')
      | Inl e \<Rightarrow>
          (if is_CustomException e then (Inl e, db)
           else (Inl (CustomException (''OCR processing failed: '' @ exn_str e)
                        ''PROCESSING_ERROR''), db)))"

subsection \<open>The task (tasks/ocr_tasks.py)\<close>

definition MAX_RETRIES :: nat where
  "MAX_RETRIES = 3"

definition RETRY_BACKOFF :: bool where
  "RETRY_BACKOFF = True"

definition RETRY_DELAY :: nat where
  "RETRY_DELAY = 60"

text \<open>\<^verbatim>\<open>self.request\<close>: the number of retries so far and the id of the task.\<close>

record request =
  retries :: nat
  task_id :: string

text \<open>
  How a run of a task ends for the task queue: it returns a value, it fails with an
  exception (the queue then calls \<^verbatim>\<open>on_failure\<close>), or it has scheduled a retry after a
  countdown in seconds.
\<close>

datatype 'a task_outcome = Returned 'a | Failed exn | Retry exn nat

text \<open>
  \<^verbatim>\<open>raise self.retry(exc=exc, countdown=c, max_retries=m)\<close>: the queue schedules the retry
  unless the retries so far have reached \<open>m\<close>, where it raises \<open>exc\<close>.
\<close>

definition self_retry :: "request \<Rightarrow> exn \<Rightarrow> nat \<Rightarrow> nat \<Rightarrow> 'a task_outcome" where
  "self_retry req exc countdown max_retries =
     (if retries req + 1 > max_retries then Failed exc else Retry exc countdown)"

text \<open>Lines 127-135 of \<^verbatim>\<open>ocr_task\<close>.\<close>

definition ocr_task_status :: "real \<Rightarrow> string" where
  "ocr_task_status score =
     (if score \<ge> 0.95 then ''processed''
      else if score \<ge> 0.70 then ''needs_review''
      else ''failed'')"

fun is_ValueError_or_KeyError :: "exn \<Rightarrow> bool" where
  "is_ValueError_or_KeyError (ValueError m) = True"
| "is_ValueError_or_KeyError (KeyError m) = True"
| "is_ValueError_or_KeyError e = False"

text \<open>
  The updates of the task's document: lines 109-114 (processing), lines 170-179
  (retry_pending), lines 138-149 (the results), and lines 55-64 of \<^verbatim>\<open>on_failure\<close> (failed).
\<close>

definition set_processing :: "request \<Rightarrow> ocr_env \<Rightarrow> document \<Rightarrow> document" where
  "set_processing req env document = document
     \<lparr>status := ''processing'',
      metadata := Some (dict_set ''task_id'' (JStr (task_id req))
        (dict_set ''processing_started'' (JStr (utcnow env))
           (or_empty (metadata document))))\<rparr>"

definition set_retry_pending :: "request \<Rightarrow> ocr_env \<Rightarrow> exn \<Rightarrow> document \<Rightarrow> document" where
  "set_retry_pending req env exc document = document
     \<lparr>status := ''retry_pending'',
      metadata := Some (dict_set ''last_error''
        (JObj [(''timestamp'', JStr (utcnow env)),
               (''error_type'', JStr (exn_type_name exc)),
               (''error_message'', JStr (exn_str exc)),
               (''retry_count'', JInt (int (retries req)))])
        (or_empty (metadata document)))\<rparr>"

definition set_results :: "ocr_env \<Rightarrow> ocr_record \<Rightarrow> string \<Rightarrow> document \<Rightarrow> document" where
  "set_results env ocr_result s3_url document =
     (let score = ocr_confidence_score ocr_result;
          st = ocr_task_status score
      in document
           \<lparr>status := st,
            confidence_score := Some score,
            storage_path := s3_url,
            metadata := Some (dict_set ''ocr_processing''
              (JObj [(''completed_at'', JStr (utcnow env)),
                     (''confidence_score'', JNum score),
                     (''status'', JStr st),
                     (''processing_details'', JObj (ocr_metadata ocr_result))])
              (or_empty (metadata document)))\<rparr>)"

definition set_failed :: "ocr_env \<Rightarrow> exn \<Rightarrow> string \<Rightarrow> document \<Rightarrow> document" where
  "set_failed env exc tid document = document
     \<lparr>status := ''failed'',
      metadata := Some (dict_set ''error''
        (JObj [(''timestamp'', JStr (utcnow env)),
               (''task_id'', JStr tid),
               (''error_type'', JStr (exn_type_name exc)),
               (''error_message'', JStr (exn_str exc))])
        (or_empty (metadata document)))\<rparr>"

text \<open>The \<^verbatim>\<open>except Exception as exc\<close> clause of \<^verbatim>\<open>ocr_task\<close> (lines 161-193).\<close>

definition ocr_task_except ::
  "request \<Rightarrow> ocr_env \<Rightarrow> database \<Rightarrow> uuid \<Rightarrow> exn \<Rightarrow> dict task_outcome \<times> database" where
  "ocr_task_except req env db document_id exc =
     (if is_ValueError_or_KeyError exc then (Failed exc, db)
      else
        let db' = (case documents db document_id of
                     None \<Rightarrow> db
                   | Some document \<Rightarrow>
                       commit db document_id (set_retry_pending req env exc document));
            retry_countdown = (if RETRY_BACKOFF then RETRY_DELAY * 2 ^ retries req
                               else RETRY_DELAY)
        in (self_retry req exc retry_countdown MAX_RETRIES, db'))"

text \<open>
  \<^verbatim>\<open>ocr_task(self, document_id)\<close>. After \<^verbatim>\<open>process_document\<close> the task's document is the
  row as \<^verbatim>\<open>process_document\<close> committed it.
\<close>

definition ocr_task ::
  "request \<Rightarrow> ocr_env \<Rightarrow> database \<Rightarrow> uuid \<Rightarrow> dict task_outcome \<times> database" where
  "ocr_task req env db document_id =
     (case documents db document_id of
        None \<Rightarrow> (Failed (ValueError (''Document not found: '' @ document_id)), db)
      | Some document \<Rightarrow>
          (let document1 = set_processing req env document;
               db1 = commit db document_id document1
           in case process_document env db1 document_id of
                (Inl exc, db2) \<Rightarrow> ocr_task_except req env db2 document_id exc
              | (Inr ocr_result, db2) \<Rightarrow>
                  (case task_upload_result env of
                     Inl exc \<Rightarrow> ocr_task_except req env db2 document_id exc
                   | Inr s3_url \<Rightarrow>
                       (let document2 = (case documents db2 document_id of
                                           None \<Rightarrow> document1 | Some d \<Rightarrow> d);
                            document3 = set_results env ocr_result s3_url document2;
                            db3 = commit db2 document_id document3
                        in (Returned
                              [(''document_id'', JStr document_id),
                               (''status'', JStr (status document3)),
                               (''confidence_score'', JNum (ocr_confidence_score ocr_result)),
                               (''s3_url'', JStr s3_url),
                               (''processing_details'', JObj (ocr_metadata ocr_result))],
                            db3)))))"

text \<open>\<^verbatim>\<open>OCRTask.on_failure(exc, task_id, args, kwargs, einfo)\<close>\<close>

definition on_failure :: "exn \<Rightarrow> string \<Rightarrow> uuid list \<Rightarrow> ocr_env \<Rightarrow> database \<Rightarrow> database" where
  "on_failure exc tid args env db =
     (case args of
        [] \<Rightarrow> db
      | document_id # rest \<Rightarrow>
          (if document_id = [] then db
           else case documents db document_id of
                  None \<Rightarrow> db
                | Some document \<Rightarrow> commit db document_id (set_failed env exc tid document)))"

text \<open>One delivery of the task by the queue: the task, and \<^verbatim>\<open>on_failure\<close> when it failed.\<close>

definition run_ocr_task ::
  "request \<Rightarrow> ocr_env \<Rightarrow> database \<Rightarrow> uuid \<Rightarrow> dict task_outcome \<times> database" where
  "run_ocr_task req env db document_id =
     (case ocr_task req env db document_id of
        (Failed exc, db') \<Rightarrow> (Failed exc, on_failure exc (task_id req) [document_id] env db')
      | (outcome, db') \<Rightarrow> (outcome, db'))"

section \<open>Webhook delivery (services/webhook_service.py, tasks/webhook_tasks.py)\<close>















subsection \<open>The task (tasks/webhook_tasks.py)\<close>





section \<open>Reference definitions and example inputs\<close>


text \<open>
  The statuses of the specification's enumeration, its three terminal statuses, and the
  statuses the pipeline writes.
\<close>

definition spec_statuses :: "string list" where
  "spec_statuses = [''pending'', ''processing'', ''processed'', ''needs_review'', ''failed'']"

definition terminal_statuses :: "string list" where
  "terminal_statuses = [''processed'', ''needs_review'', ''failed'']"

definition pipeline_statuses :: "string list" where
  "pipeline_statuses =
     [''pending'', ''processing'', ''processed'', ''needs_review'', ''failed'', ''retry_pending'']"


text \<open>
  \<open>appended i S db db'\<close>: the statuses committed between \<open>db\<close> and \<open>db'\<close> are statuses
  of the document \<open>i\<close>, all in \<open>S\<close>.
\<close>

definition appended :: "uuid \<Rightarrow> string list \<Rightarrow> database \<Rightarrow> database \<Rightarrow> bool" where
  "appended i S db db' \<longleftrightarrow>
     (\<exists>new. persisted db' = persisted db @ new \<and> (\<forall>e \<in> set new. fst e = i \<and> snd e \<in> set S))"

text \<open>The document \<open>i\<close>, if it is approved (processed or needs_review), has a score.\<close>

definition scored_when_approved :: "database \<Rightarrow> uuid \<Rightarrow> bool" where
  "scored_when_approved db i \<longleftrightarrow>
     (case documents db i of
        None \<Rightarrow> True
      | Some d \<Rightarrow> status d = ''processed'' \<or> status d = ''needs_review''
                   \<longrightarrow> confidence_score d \<noteq> None)"

text \<open>A freshly uploaded PNG, a DOCX, and the answers of the collaborators.\<close>

definition example_document :: document where
  "example_document =
     \<lparr>doc_id = ''d1'', application_id = ''a1'', doc_type = ''invoice'',
      storage_path = ''uploads/invoice.png'', classification = None, status = ''pending'',
      confidence_score = None, metadata = Some []\<rparr>"

definition example_db :: database where
  "example_db = \<lparr>documents = [''d1'' \<mapsto> example_document], ocr_results = [], persisted = []\<rparr>"



definition invoice_env :: ocr_env where
  "invoice_env =
     \<lparr>validate_document_data_raises = None,
      processor_raises = None,
      image_result = Inr \<lparr>width = 800, height = 600, format = ''PNG''\<rparr>,
      image_to_data_result =
        Inr [(''text'', Words [''Invoice'', ''Total'', ''$500'']),
             (''conf'', Numbers [98, 97, 95, 99])],
      ocr_create_raises = None, ocr_in_db_raises = None,
      service_upload_result = Inr ''s3://documents/d1'',
      task_upload_result = Inr ''s3://documents/d1'',
      utcnow = ''2024-01-01T00:00:00''\<rparr>"

definition broken_image_env :: ocr_env where
  "broken_image_env =
     invoice_env\<lparr>image_result := Inl (OtherError ''OSError'' ''cannot identify image file'')\<rparr>"

definition first_request :: request where
  "first_request = \<lparr>retries = 0, task_id = ''task-1''\<rparr>"











section \<open>The scorer\<close>



lemma round4_multiple: "\<exists>k. round4 v = of_int k / 10000"
  unfolding round4_def Let_def by blast

lemma round4_of_int: "round4 (of_int k / 10000) = of_int k / 10000"
  by (simp add: round4_def)

lemma round4_idem: "round4 (round4 v) = round4 v"
proof -
  obtain k where k: "round4 v = of_int k / 10000"
    using round4_multiple by blast
  show ?thesis unfolding k by (rule round4_of_int)
qed










lemma calculate_confidence_score_range:
  assumes "calculate_confidence_score t ocr_data = Inr s"
  shows "0 \<le> s \<and> s \<le> 1"
  using assms
  by (auto simp: calculate_confidence_score_def Let_def
      split: if_splits option.splits column.splits)




section \<open>The OCR pipeline\<close>

lemma appended_refl: "appended i S db db"
  by (simp add: appended_def)

lemma appended_trans: "appended i S db db1 \<Longrightarrow> appended i S db1 db2 \<Longrightarrow> appended i S db db2"
  unfolding appended_def by (elim exE conjE) (rule_tac x="new @ newa" in exI, auto)

lemma appended_one:
  "persisted db' = persisted db @ [(i, s)] \<Longrightarrow> s \<in> set S \<Longrightarrow> appended i S db db'"
  by (simp add: appended_def)

lemma process_document_status_terminal: "process_document_status s \<in> set terminal_statuses"
  by (simp add: process_document_status_def terminal_statuses_def)

lemma ocr_task_status_terminal: "ocr_task_status s \<in> set terminal_statuses"
  by (simp add: ocr_task_status_def terminal_statuses_def)

lemma terminal_pipeline: "s \<in> set terminal_statuses \<Longrightarrow> s \<in> set pipeline_statuses"
  by (auto simp: terminal_statuses_def pipeline_statuses_def)



subsection \<open>What \<^verbatim>\<open>process_document\<close> leaves\<close>

lemma process_document_record_Inr:
  assumes "process_document_record env db i d img od ws t score = Inr (r, db')"
  shows "\<exists>d'. documents db' = (documents db)(i \<mapsto> d') \<and>
               status d' = process_document_status score \<and>
               confidence_score d' = Some score \<and>
               persisted db' = persisted db @ [(i, process_document_status score)] \<and>
               ocr_confidence_score r = round4 score \<and>
               ocr_status r = process_document_status score"
  using assms
  by (auto simp: process_document_record_def OCRCreate_def OCRInDB_def commit_def Let_def
        validate_confidence_score_def round4_idem
      split: option.splits sum.splits if_splits)

lemma process_document_try_Inr:
  assumes "process_document_try env db i = Inr (r, db')"
  shows "\<exists>d' score. documents db' = (documents db)(i \<mapsto> d') \<and>
               status d' = process_document_status score \<and>
               confidence_score d' = Some score \<and>
               persisted db' = persisted db @ [(i, process_document_status score)] \<and>
               ocr_confidence_score r = round4 score \<and>
               ocr_status r = process_document_status score"
  using assms
  by (auto simp: process_document_try_def Let_def
      split: option.splits sum.splits if_splits prod.splits
      dest!: process_document_record_Inr)

lemma process_document_Inr:
  assumes "process_document env db i = (Inr r, db')"
  shows "\<exists>d' score. documents db' = (documents db)(i \<mapsto> d') \<and>
               status d' = process_document_status score \<and>
               confidence_score d' = Some score \<and>
               persisted db' = persisted db @ [(i, process_document_status score)] \<and>
               ocr_confidence_score r = round4 score \<and>
               ocr_status r = process_document_status score"
  using assms
  by (auto simp: process_document_def split: sum.splits if_splits prod.splits
      dest!: process_document_try_Inr)

lemma process_document_Inl:
  assumes "process_document env db i = (Inl e, db')"
  shows "db' = db \<and> is_CustomException e"
  using assms
  by (auto simp: process_document_def split: sum.splits if_splits prod.splits)



subsection \<open>What the task leaves\<close>

lemma ocr_task_except_props:
  assumes "ocr_task_except req env db i exc = (out, db')"
  shows "(\<forall>res. out \<noteq> Returned res) \<and>
         (db' = db \<or>
          (\<exists>d d'. documents db i = Some d \<and> documents db' = (documents db)(i \<mapsto> d') \<and>
             status d' = ''retry_pending'' \<and> confidence_score d' = confidence_score d \<and>
             persisted db' = persisted db @ [(i, ''retry_pending'')]))"
  using assms
  by (auto simp: ocr_task_except_def self_retry_def commit_def Let_def set_retry_pending_def
      split: option.splits if_splits)

lemma on_failure_props:
  "on_failure exc tid [i] env db = db \<or>
     (\<exists>d d'. documents db i = Some d \<and>
        documents (on_failure exc tid [i] env db) = (documents db)(i \<mapsto> d') \<and>
        status d' = ''failed'' \<and> confidence_score d' = confidence_score d \<and>
        persisted (on_failure exc tid [i] env db) = persisted db @ [(i, ''failed'')])"
  by (auto simp: on_failure_def commit_def set_failed_def split: option.splits)

lemma ocr_task_except_invariant:
  assumes "ocr_task_except req env db i exc = (out, db')" "scored_when_approved db i"
  shows "scored_when_approved db' i \<and> appended i pipeline_statuses db db'"
proof -
  from ocr_task_except_props[OF assms(1)]
  consider "db' = db"
    | d d' where "documents db i = Some d" "documents db' = (documents db)(i \<mapsto> d')"
        "status d' = ''retry_pending''" "persisted db' = persisted db @ [(i, ''retry_pending'')]"
    by blast
  then show ?thesis
  proof cases
    case 1
    then show ?thesis using assms(2) by (simp add: appended_refl)
  next
    case 2
    have "appended i pipeline_statuses db db'"
      by (rule appended_one[OF 2(4)]) (simp add: pipeline_statuses_def)
    then show ?thesis using 2 by (simp add: scored_when_approved_def)
  qed
qed

lemma ocr_task_props:
  assumes "ocr_task req env db i = (out, db')"
  shows "scored_when_approved db' i \<and> appended i pipeline_statuses db db' \<and>
         (\<forall>res. out = Returned res \<longrightarrow>
            (\<exists>d' s. documents db' i = Some d' \<and> confidence_score d' = Some s \<and>
                     status d' = ocr_task_status s))"
proof (cases "documents db i")
  case None
  then show ?thesis
    using assms by (auto simp: ocr_task_def scored_when_approved_def appended_refl)
next
  case (Some d)
  define db1 where "db1 = commit db i (set_processing req env d)"
  have a1: "appended i pipeline_statuses db db1"
    by (rule appended_one[where s="''processing''"])
       (simp_all add: db1_def commit_def set_processing_def pipeline_statuses_def)
  have inv1: "scored_when_approved db1 i"
    by (simp add: scored_when_approved_def db1_def commit_def set_processing_def)
  obtain r db2 where pd: "process_document env db1 i = (r, db2)"
    by (cases "process_document env db1 i")
  show ?thesis
  proof (cases r)
    case (Inl exc)
    have "db2 = db1"
      using process_document_Inl pd Inl by blast
    moreover have "ocr_task_except req env db2 i exc = (out, db')"
      using assms Some pd Inl by (simp add: ocr_task_def Let_def db1_def)
    ultimately show ?thesis
      using ocr_task_except_invariant[of req env db1 i exc out db'] inv1 a1
        ocr_task_except_props[of req env db1 i exc out db']
      by (auto intro: appended_trans)
  next
    case (Inr rec)
    obtain d2 score where d2: "documents db2 = (documents db1)(i \<mapsto> d2)"
       "status d2 = process_document_status score" "confidence_score d2 = Some score"
       "persisted db2 = persisted db1 @ [(i, process_document_status score)]"
      using process_document_Inr pd Inr by blast
    have a2: "appended i pipeline_statuses db db2"
      using a1 d2(4) process_document_status_terminal terminal_pipeline
      by (blast intro: appended_trans appended_one)
    have inv2: "scored_when_approved db2 i"
      using d2 by (simp add: scored_when_approved_def)
    show ?thesis
    proof (cases "task_upload_result env")
      case (Inl exc)
      have "ocr_task_except req env db2 i exc = (out, db')"
        using assms Some pd \<open>r = Inr rec\<close> Inl by (simp add: ocr_task_def Let_def db1_def)
      then show ?thesis
        using ocr_task_except_invariant[of req env db2 i exc out db'] inv2 a2
          ocr_task_except_props[of req env db2 i exc out db']
        by (auto intro: appended_trans)
    next
      case (Inr s3)
      have out: "db' = commit db2 i (set_results env rec s3 d2)" "\<exists>res. out = Returned res"
        using assms Some pd \<open>r = Inr rec\<close> Inr d2(1)
        by (auto simp add: ocr_task_def Let_def db1_def)
      have a3: "appended i pipeline_statuses db2 db'"
        by (rule appended_one[where s="ocr_task_status (ocr_confidence_score rec)"])
           (simp_all add: out commit_def set_results_def Let_def ocr_task_status_terminal
              terminal_pipeline)
      show ?thesis
        using a2 a3
        by (auto simp: out(1) commit_def set_results_def Let_def scored_when_approved_def
            ocr_task_status_def intro: appended_trans)
    qed
  qed
qed


lemma run_ocr_task_props:
  assumes "run_ocr_task req env db i = (out, db')"
  shows "scored_when_approved db' i \<and> appended i pipeline_statuses db db' \<and>
         (\<forall>res. out = Returned res \<longrightarrow>
            (\<exists>d' s. documents db' i = Some d' \<and> confidence_score d' = Some s \<and>
                     status d' = ocr_task_status s))"
proof -
  obtain out1 db1 where t: "ocr_task req env db i = (out1, db1)"
    by (cases "ocr_task req env db i")
  note p = ocr_task_props[OF t]
  show ?thesis
  proof (cases "\<exists>exc. out1 = Failed exc")
    case False
    then have "out = out1 \<and> db' = db1"
      using assms t by (cases out1) (simp_all add: run_ocr_task_def)
    then show ?thesis using p by simp
  next
    case True
    then obtain exc where exc: "out1 = Failed exc" by blast
    have r: "out = Failed exc" "db' = on_failure exc (task_id req) [i] env db1"
      using assms t exc by (simp_all add: run_ocr_task_def)
    have "db' = db1 \<or>
          (\<exists>d'. documents db' = (documents db1)(i \<mapsto> d') \<and> status d' = ''failed'' \<and>
                persisted db' = persisted db1 @ [(i, ''failed'')])"
      using on_failure_props[of exc "task_id req" i env db1] unfolding r(2) by blast
    then consider "db' = db1"
      | d' where "documents db' = (documents db1)(i \<mapsto> d')" "status d' = ''failed''"
          "persisted db' = persisted db1 @ [(i, ''failed'')]"
      by blast
    then show ?thesis
    proof cases
      case 1
      then show ?thesis using p r(1) by simp
    next
      case 2
      have "appended i pipeline_statuses db1 db'"
        by (rule appended_one[OF 2(3)]) (simp add: pipeline_statuses_def)
      then show ?thesis
        using p 2 r(1) by (auto simp: scored_when_approved_def intro: appended_trans)
    qed
  qed
qed

subsection \<open>The example inputs\<close>


lemma example_db_d1: "documents example_db ''d1'' = Some example_document"
  by (simp add: example_db_def)

lemma ext_png: "lower (snd (splitext ''uploads/invoice.png'')) = ''.png''"
  by (simp add: splitext_def rfind_def lower_def lower_char_def Let_def)












lemma process_document_image_fails:
  assumes "documents db i = Some d"
    and "lower (snd (splitext (storage_path d))) \<in> set SUPPORTED_FORMATS"
    and "validate_document_data_raises env = None"
    and "processor_raises env = None"
    and "image_result env = Inl e"
  shows "process_document env db i =
           (Inl (CustomException (''Image processing failed: '' @ exn_str e)
                   ''PROCESSING_ERROR''), db)"
  using assms by (simp add: process_document_def process_document_try_def Let_def)

lemma ocr_task_image_fails:
  assumes "documents db i = Some d"
    and "lower (snd (splitext (storage_path d))) \<in> set SUPPORTED_FORMATS"
    and "validate_document_data_raises env = None"
    and "processor_raises env = None"
    and "image_result env = Inl e"
  shows "ocr_task req env db i =
           (self_retry req
              (CustomException (''Image processing failed: '' @ exn_str e) ''PROCESSING_ERROR'')
              (RETRY_DELAY * 2 ^ retries req) MAX_RETRIES,
            commit (commit db i (set_processing req env d)) i
              (set_retry_pending req env
                 (CustomException (''Image processing failed: '' @ exn_str e) ''PROCESSING_ERROR'')
                 (set_processing req env d)))"
proof -
  let ?d1 = "set_processing req env d"
  let ?db1 = "commit db i ?d1"
  have sp: "storage_path ?d1 = storage_path d"
    by (simp add: set_processing_def)
  have "documents ?db1 i = Some ?d1"
    by (simp add: commit_def)
  from process_document_image_fails[OF this _ assms(3,4,5)] assms(2)
  have pd: "process_document env ?db1 i =
           (Inl (CustomException (''Image processing failed: '' @ exn_str e)
                   ''PROCESSING_ERROR''), ?db1)"
    by (simp add: sp)
  have "ocr_task req env db i =
          ocr_task_except req env ?db1 i
            (CustomException (''Image processing failed: '' @ exn_str e) ''PROCESSING_ERROR'')"
    using assms(1) by (simp add: ocr_task_def Let_def pd)
  moreover have "documents ?db1 i = Some ?d1"
    by (simp add: commit_def)
  ultimately show ?thesis
    by (simp add: ocr_task_except_def RETRY_BACKOFF_def Let_def)
qed

lemma broken_image_env_fields:
  "validate_document_data_raises broken_image_env = None"
  "processor_raises broken_image_env = None"
  "image_result broken_image_env = Inl (OtherError ''OSError'' ''cannot identify image file'')"
  by (simp_all add: broken_image_env_def invoice_env_def)

lemma example_document_supported:
  "lower (snd (splitext (storage_path example_document))) \<in> set SUPPORTED_FORMATS"
  by (simp add: example_document_def ext_png SUPPORTED_FORMATS_def)

lemma ocr_task_broken_image:
  "ocr_task req broken_image_env example_db ''d1'' =
     (self_retry req
        (CustomException ''Image processing failed: cannot identify image file''
           ''PROCESSING_ERROR'')
        (RETRY_DELAY * 2 ^ retries req) MAX_RETRIES,
      commit (commit example_db ''d1'' (set_processing req broken_image_env example_document))
        ''d1''
        (set_retry_pending req broken_image_env
           (CustomException ''Image processing failed: cannot identify image file''
              ''PROCESSING_ERROR'')
           (set_processing req broken_image_env example_document)))"
  using ocr_task_image_fails[OF example_db_d1 example_document_supported
      broken_image_env_fields, of req]
  by simp




text \<open>
  C7 (as stated, refuted). On a first delivery whose image cannot be opened the task
  commits the status \<open>retry_pending\<close>, which is not in the enumeration of the claim.
\<close>

theorem retry_pending_is_persisted:
  "(''d1'', ''retry_pending'')
     \<in> set (persisted (snd (ocr_task first_request broken_image_env example_db ''d1''))) \<and>
   ''retry_pending'' \<notin> set spec_statuses"
  unfolding ocr_task_broken_image
  by (simp add: commit_def set_retry_pending_def spec_statuses_def)

text \<open>
  C7 (amended). Every status the pipeline commits on a document, in a delivery of the
  task (with \<^verbatim>\<open>on_failure\<close>) or in a direct run of \<^verbatim>\<open>process_document\<close>, is one of pending,
  processing, processed, needs_review, failed and retry_pending.
\<close>

theorem persisted_statuses:
  "appended i pipeline_statuses db (snd (run_ocr_task req env db i)) \<and>
   appended i pipeline_statuses db (snd (process_document env db i))"
proof -
  have "appended i pipeline_statuses db (snd (run_ocr_task req env db i))"
    using run_ocr_task_props[of req env db i] by (cases "run_ocr_task req env db i") simp
  moreover have "appended i pipeline_statuses db (snd (process_document env db i))"
  proof (cases "process_document env db i")
    case (Pair r db')
    show ?thesis
    proof (cases r)
      case (Inl e)
      then show ?thesis
        using process_document_Inl[of env db i e db'] Pair by (simp add: appended_refl)
    next
      case (Inr rec)
      then obtain score where
        "persisted db' = persisted db @ [(i, process_document_status score)]"
        using process_document_Inr[of env db i rec db'] Pair by auto
      then show ?thesis
        using Pair process_document_status_terminal terminal_pipeline
        by (auto intro: appended_one)
    qed
  qed
  ultimately show ?thesis by blast
qed

theorem persisted_statuses_witness:
  "persisted (snd (run_ocr_task first_request broken_image_env example_db ''d1''))
     = [(''d1'', ''processing''), (''d1'', ''retry_pending'')] \<and>
   appended ''d1'' pipeline_statuses example_db
     (snd (run_ocr_task first_request broken_image_env example_db ''d1''))"
proof -
  have "persisted (snd (run_ocr_task first_request broken_image_env example_db ''d1''))
     = [(''d1'', ''processing''), (''d1'', ''retry_pending'')]"
    unfolding run_ocr_task_def ocr_task_broken_image
    by (simp add: self_retry_def first_request_def MAX_RETRIES_def commit_def
        set_retry_pending_def set_processing_def example_db_def)
  then show ?thesis
    using persisted_statuses [of "''d1''" example_db first_request broken_image_env]
    by simp
qed

section \<open>Webhook delivery\<close>


subsection \<open>One execution of the body\<close>




subsection \<open>The decorated function\<close>


subsection \<open>Deliveries that fail\<close>






subsection \<open>The example webhook\<close>











subsection \<open>Deliveries that are accepted\<close>





end
